theory Spec2Isabelle
  imports Main
begin

section \<open>Python text\<close>

text \<open>
  A Python \<^verbatim>\<open>str\<close> is a sequence of Unicode code points; a code point is a natural
  number here, so that text outside Latin-1 (the cross mark of the start-up messages,
  the Unicode spaces that \<^verbatim>\<open>strip\<close> removes) is covered. \<open>py\<close> reads an ASCII literal.
\<close>

type_synonym pystr = "nat list"

definition py :: "string \<Rightarrow> pystr" where
  "py s = map of_char s"

text \<open>\<^verbatim>\<open>"\n"\<close>, the line feed.\<close>

definition nl :: pystr where
  "nl = [10]"

text \<open>
  The code points for which \<^verbatim>\<open>str.isspace\<close> holds, which are the ones \<^verbatim>\<open>str.strip()\<close>
  without argument removes.
\<close>

definition isspace :: "nat \<Rightarrow> bool" where
  "isspace c \<longleftrightarrow>
     (9 \<le> c \<and> c \<le> 13) \<or> (28 \<le> c \<and> c \<le> 32) \<or> c = 133 \<or> c = 160 \<or> c = 5760 \<or>
     (8192 \<le> c \<and> c \<le> 8202) \<or> c = 8232 \<or> c = 8233 \<or> c = 8239 \<or> c = 8287 \<or> c = 12288"

text \<open>\<^verbatim>\<open>s.strip()\<close>: leading and trailing white space removed.\<close>

definition strip :: "pystr \<Rightarrow> pystr" where
  "strip s = rev (dropWhile isspace (rev (dropWhile isspace s)))"

text \<open>\<^verbatim>\<open>sep.join(xs)\<close> for a list of strings.\<close>

fun join :: "pystr \<Rightarrow> pystr list \<Rightarrow> pystr" where
  "join sep [] = []"
| "join sep [x] = x"
| "join sep (x # y # ys) = x @ sep @ join sep (y # ys)"

text \<open>\<^verbatim>\<open>str(n)\<close> for an integer: decimal digits, with a minus sign when negative.\<close>

function str_nat :: "nat \<Rightarrow> pystr" where
  "str_nat n = (if n < 10 then [48 + n] else str_nat (n div 10) @ [48 + n mod 10])"
  by pat_completeness auto
termination
  by (relation "measure id") auto

declare str_nat.simps [simp del]

definition str_int :: "int \<Rightarrow> pystr" where
  "str_int i = (if i < 0 then 45 # str_nat (nat (- i)) else str_nat (nat i))"

section \<open>Exceptions\<close>

text \<open>
  A raised exception is its class and the text \<^verbatim>\<open>str(e)\<close> gives. The classes are the ones
  the program raises itself or provokes in the interpreter, and one constructor each for
  the other classes under \<^verbatim>\<open>Exception\<close> and the ones only under \<^verbatim>\<open>BaseException\<close>
  (\<^verbatim>\<open>KeyboardInterrupt\<close>, \<^verbatim>\<open>SystemExit\<close>), which \<^verbatim>\<open>except Exception\<close> lets through.
\<close>

datatype exc_class =
    PlainException
  | RuntimeError
  | KeyError
  | IndexError
  | TypeError
  | OtherException pystr
  | BaseOnly pystr

datatype exn = Raise (exc_class: exc_class) (exc_str: pystr)

fun is_Exception :: "exn \<Rightarrow> bool" where
  "is_Exception (Raise (BaseOnly name) msg) = False"
| "is_Exception (Raise cls msg) = True"

section \<open>Retrieval client\<close>

text \<open>
  The dictionary \<^verbatim>\<open>knowledge_collection.query\<close> returns, as far as the program reads it:
  the entry under \<^verbatim>\<open>"documents"\<close>, which is missing, \<^verbatim>\<open>None\<close>, or one list of document
  texts per query text.
\<close>

datatype documents_entry = NoKey | NoneValue | DocLists "pystr list list"

record query_result =
  documents :: documents_entry

text \<open>The calls the program makes to its two clients, in order.\<close>

datatype call =
    Retrieval pystr int
  | Generation pystr pystr

definition separator :: pystr where
  "separator = nl @ nl @ py ''---'' @ nl @ nl"

text \<open>
  \<^verbatim>\<open>results.get("documents", [[]])[0]\<close>: the default is one empty list; \<^verbatim>\<open>None\<close> and the
  empty list cannot be indexed.
\<close>

fun first_documents :: "documents_entry \<Rightarrow> exn + pystr list" where
  "first_documents NoKey = Inr []"
| "first_documents NoneValue =
     Inl (Raise TypeError ([39] @ py ''NoneType'' @ [39] @ py '' object is not subscriptable''))"
| "first_documents (DocLists []) = Inl (Raise IndexError (py ''list index out of range''))"
| "first_documents (DocLists (docs # rest)) = Inr docs"

text \<open>
  \<open>collection_query coll [query] n_results\<close> stands for
  \<^verbatim>\<open>knowledge_collection.query(query_texts=[query], n_results=n_results)\<close> on the handle
  \<open>coll\<close>: it raises or returns a result.
\<close>

definition query_chroma_collection ::
  "('coll \<Rightarrow> pystr list \<Rightarrow> int \<Rightarrow> exn + query_result) \<Rightarrow> 'coll \<Rightarrow> pystr \<Rightarrow> int \<Rightarrow> exn + pystr"
where
  "query_chroma_collection collection_query knowledge_collection query n_results =
     (case collection_query knowledge_collection [query] n_results of
        Inl e \<Rightarrow> Inl e
      | Inr results \<Rightarrow>
          (case first_documents (documents results) of
             Inl e \<Rightarrow> Inl e
           | Inr docs \<Rightarrow> Inr (if docs \<noteq> [] then join separator docs else [])))"

section \<open>Generation client\<close>

text \<open>
  Decoded JSON, as \<^verbatim>\<open>response.json()\<close> and the request body give it: \<^verbatim>\<open>None\<close>, \<^verbatim>\<open>bool\<close>,
  \<^verbatim>\<open>int\<close>, \<^verbatim>\<open>float\<close> (kept as the text of its \<^verbatim>\<open>repr\<close>), \<^verbatim>\<open>str\<close>, \<^verbatim>\<open>list\<close>, and \<^verbatim>\<open>dict\<close> as
  its items.
\<close>

datatype json =
    JNull
  | JBool bool
  | JInt int
  | JFloat pystr
  | JStr pystr
  | JList "json list"
  | JObj "(pystr \<times> json) list"

fun type_name :: "json \<Rightarrow> pystr" where
  "type_name JNull = py ''NoneType''"
| "type_name (JBool b) = py ''bool''"
| "type_name (JInt i) = py ''int''"
| "type_name (JFloat f) = py ''float''"
| "type_name (JStr s) = py ''str''"
| "type_name (JList xs) = py ''list''"
| "type_name (JObj kvs) = py ''dict''"

text \<open>A text between apostrophes: the \<^verbatim>\<open>repr\<close> of a key without quotes or escapes in it.\<close>

definition quoted :: "pystr \<Rightarrow> pystr" where
  "quoted s = [39] @ s @ [39]"

definition not_subscriptable :: "json \<Rightarrow> exn" where
  "not_subscriptable j = Raise TypeError (quoted (type_name j) @ py '' object is not subscriptable'')"

text \<open>\<^verbatim>\<open>obj[key]\<close> for a string key, with the errors of the interpreter.\<close>

fun getitem_key :: "json \<Rightarrow> pystr \<Rightarrow> exn + json" where
  "getitem_key (JObj kvs) k =
     (case map_of kvs k of Some v \<Rightarrow> Inr v | None \<Rightarrow> Inl (Raise KeyError (quoted k)))"
| "getitem_key (JList xs) k =
     Inl (Raise TypeError (py ''list indices must be integers or slices, not str''))"
| "getitem_key (JStr s) k =
     Inl (Raise TypeError (py ''string indices must be integers, not '' @ quoted (py ''str'')))"
| "getitem_key j k = Inl (not_subscriptable j)"

text \<open>\<^verbatim>\<open>obj[0]\<close>; the keys of a decoded JSON object are strings, so \<^verbatim>\<open>0\<close> is none of them.\<close>

fun getitem_0 :: "json \<Rightarrow> exn + json" where
  "getitem_0 (JList []) = Inl (Raise IndexError (py ''list index out of range''))"
| "getitem_0 (JList (x # xs)) = Inr x"
| "getitem_0 (JStr []) = Inl (Raise IndexError (py ''string index out of range''))"
| "getitem_0 (JStr (c # cs)) = Inr (JStr [c])"
| "getitem_0 (JObj kvs) = Inl (Raise KeyError (py ''0''))"
| "getitem_0 j = Inl (not_subscriptable j)"

text \<open>Sequencing of steps that may raise.\<close>

fun and_then :: "exn + 'a \<Rightarrow> ('a \<Rightarrow> exn + 'b) \<Rightarrow> exn + 'b" where
  "and_then (Inl e) f = Inl e"
| "and_then (Inr x) f = f x"

text \<open>
  What \<^verbatim>\<open>requests.post\<close> returns: \<^verbatim>\<open>status_code\<close>, \<^verbatim>\<open>text\<close> (the field \<open>body\<close>) and the
  outcome of \<^verbatim>\<open>json()\<close> (the field \<open>decoded\<close>), which raises when the body is not JSON.
\<close>

record response =
  status_code :: int
  body :: pystr
  decoded :: "exn + json"

definition url :: pystr where
  "url = py ''https://api.perplexity.ai/chat/completions''"

definition headers :: "pystr \<Rightarrow> (pystr \<times> pystr) list" where
  "headers PERPLEXITY_API_KEY =
     [(py ''Authorization'', py ''Bearer '' @ PERPLEXITY_API_KEY),
      (py ''Content-Type'', py ''application/json'')]"

definition prompt_head :: pystr where
  "prompt_head = nl @
     py ''You are an expert IIT JEE Physics tutor that answers questions with detailed explanations. Using the following context, answer the user''
       @ [39] @ py ''s question.'' @ nl @
     nl @
     py ''Context:<br><br>'' @ nl"

definition prompt_middle :: pystr where
  "prompt_middle = py ''<br><br>'' @ nl @
     nl @
     py ''User Question:<br><br>'' @ nl"

definition prompt_tail :: pystr where
  "prompt_tail = py ''<br><br>'' @ nl @
     nl @
     py ''Provide a clear, structured, and detailed step-by-step explanation in your answer using HTML tags such as:<br>'' @ nl @
     py ''<ul>'' @ nl @
     py ''  <li><b>&lt;p&gt;</b> for paragraphs</li>'' @ nl @
     py ''  <li><b>&lt;b&gt;</b> or <b>&lt;strong&gt;</b> for bold text</li>'' @ nl @
     py ''  <li><b>&lt;i&gt;</b> or <b>&lt;em&gt;</b> for emphasis</li>'' @ nl @
     py ''  <li><b>&lt;ul&gt;</b> and <b>&lt;li&gt;</b> for lists</li>'' @ nl @
     py ''  <li><b>&lt;h3&gt;</b>, <b>&lt;h4&gt;</b> for headings</li>'' @ nl @
     py ''</ul>'' @ nl @
     py ''Do NOT use markdown syntax like **bold** or --- lines.<br><br>'' @ nl @
     nl @
     py ''Please provide the entire answer in valid HTML.'' @ nl"

definition prompt :: "pystr \<Rightarrow> pystr \<Rightarrow> pystr" where
  "prompt query context = prompt_head @ context @ prompt_middle @ query @ prompt_tail"

definition payload :: "pystr \<Rightarrow> json" where
  "payload user_content = JObj
     [(py ''model'', JStr (py ''sonar'')),
      (py ''messages'', JList
         [JObj [(py ''role'', JStr (py ''system'')),
                (py ''content'', JStr (py ''You are precise, concise and educational.''))],
          JObj [(py ''role'', JStr (py ''user'')), (py ''content'', JStr user_content)]]),
      (py ''temperature'', JFloat (py ''0.3'')),
      (py ''max_tokens'', JInt 1024),
      (py ''stream'', JBool False)]"

text \<open>
  \<open>requests_post url headers payload\<close> stands for
  \<^verbatim>\<open>requests.post(url, headers=headers, json=payload)\<close>: it raises or returns a response.
  The function \<^verbatim>\<open>call_perplexity_api\<close> returns what it finds under
  \<^verbatim>\<open>["choices"][0]["message"]["content"]\<close>, whatever its type.
\<close>

definition call_perplexity_api ::
  "(pystr \<Rightarrow> (pystr \<times> pystr) list \<Rightarrow> json \<Rightarrow> exn + response) \<Rightarrow> pystr \<Rightarrow> pystr \<Rightarrow> pystr
     \<Rightarrow> exn + json"
where
  "call_perplexity_api requests_post PERPLEXITY_API_KEY query context =
     (case requests_post url (headers PERPLEXITY_API_KEY) (payload (prompt query context)) of
        Inl e \<Rightarrow> Inl e
      | Inr response \<Rightarrow>
          if status_code response = 200 then
            and_then (decoded response) (\<lambda>data.
            and_then (getitem_key data (py ''choices'')) (\<lambda>choices.
            and_then (getitem_0 choices) (\<lambda>choice.
            and_then (getitem_key choice (py ''message'')) (\<lambda>message.
            getitem_key message (py ''content'')))))
          else
            Inl (Raise PlainException
                   (py ''Perplexity API error: '' @ str_int (status_code response) @ py '' ''
                      @ body response)))"

section \<open>What the program calls and does not define\<close>

text \<open>
  The libraries and remote services, as functions that raise or return:
  \<^item> \<open>ext_client api_key tenant database\<close> is \<^verbatim>\<open>chromadb.CloudClient(...)\<close>;
  \<^item> \<open>ext_get_collection client name\<close> is \<^verbatim>\<open>client.get_collection(name)\<close>;
  \<^item> \<open>ext_query\<close> is \<^verbatim>\<open>knowledge_collection.query\<close> and \<open>ext_post\<close> is \<^verbatim>\<open>requests.post\<close>;
  \<^item> \<open>ext_str\<close> and \<open>ext_int\<close> are what pydantic makes of a value that is not already a
    \<^verbatim>\<open>str\<close> (an \<^verbatim>\<open>int\<close>) in a field declared \<^verbatim>\<open>str\<close> (\<^verbatim>\<open>int\<close>): a coerced value or a
    validation error, which differs between its versions.
\<close>

record ('client, 'coll) externals =
  ext_client :: "pystr \<Rightarrow> pystr \<Rightarrow> pystr \<Rightarrow> exn + 'client"
  ext_get_collection :: "'client \<Rightarrow> pystr \<Rightarrow> exn + 'coll"
  ext_query :: "'coll \<Rightarrow> pystr list \<Rightarrow> int \<Rightarrow> exn + query_result"
  ext_post :: "pystr \<Rightarrow> (pystr \<times> pystr) list \<Rightarrow> json \<Rightarrow> exn + response"
  ext_str :: "json \<Rightarrow> exn + pystr"
  ext_int :: "json \<Rightarrow> exn + int"

section \<open>Module initialization\<close>

text \<open>The module's global variables once it has been loaded.\<close>

record ('client, 'coll) globals =
  PERPLEXITY_API_KEY :: pystr
  CHROMA_API_KEY :: pystr
  CHROMA_TENANT :: pystr
  client :: 'client
  knowledge_collection :: 'coll

definition CHROMA_DB :: pystr where
  "CHROMA_DB = py ''Kinematics''"

definition CHROMA_COLLECTION :: pystr where
  "CHROMA_COLLECTION = py ''Kinematics''"

text \<open>The calls made to the vector database while the module loads, in order.\<close>

datatype startup_call =
    CloudClient pystr pystr pystr
  | GetCollection pystr

text \<open>The cross mark U+274C that opens both start-up messages.\<close>

definition cross_mark :: pystr where
  "cross_mark = [10060]"

definition missing_keys_error :: exn where
  "missing_keys_error = Raise RuntimeError
     (cross_mark @ py '' One or more required API keys/tenant missing in environment variables.'')"

text \<open>
  \<^verbatim>\<open>except Exception as e: raise RuntimeError(f"... '{CHROMA_COLLECTION}': {e}")\<close>; what is
  not an \<^verbatim>\<open>Exception\<close> passes through.
\<close>

definition collection_error :: "exn \<Rightarrow> exn" where
  "collection_error e =
     (if is_Exception e
      then Raise RuntimeError
             (cross_mark @ py '' Failed to access ChromaDB collection '' @ quoted CHROMA_COLLECTION
                @ py '': '' @ exc_str e)
      else e)"

text \<open>
  The module body, lines 23 to 45. \<open>environ\<close> is the process environment after
  \<^verbatim>\<open>load_dotenv()\<close>, so \<open>environ name\<close> is \<^verbatim>\<open>os.getenv(name)\<close>; \<^verbatim>\<open>not v\<close> holds for \<^verbatim>\<open>None\<close>
  and for the empty string. The result is the exception that ends the import, or the
  globals.
\<close>

definition startup ::
  "('client, 'coll) externals \<Rightarrow> (pystr \<rightharpoonup> pystr)
     \<Rightarrow> startup_call list \<times> (exn + ('client, 'coll) globals)"
where
  "startup X environ =
     (case (environ (py ''PERPLEXITY_API_KEY''), environ (py ''CHROMA_CLOUD_API_KEY''),
            environ (py ''CHROMA_CLOUD_TENANT'')) of
        (Some pk, Some ck, Some tn) \<Rightarrow>
          if pk = [] \<or> ck = [] \<or> tn = [] then ([], Inl missing_keys_error)
          else
            (case ext_client X ck tn CHROMA_DB of
               Inl e \<Rightarrow> ([CloudClient ck tn CHROMA_DB], Inl e)
             | Inr cl \<Rightarrow>
                 (case ext_get_collection X cl CHROMA_COLLECTION of
                    Inl e \<Rightarrow>
                      ([CloudClient ck tn CHROMA_DB, GetCollection CHROMA_COLLECTION],
                       Inl (collection_error e))
                  | Inr coll \<Rightarrow>
                      ([CloudClient ck tn CHROMA_DB, GetCollection CHROMA_COLLECTION],
                       Inr \<lparr>PERPLEXITY_API_KEY = pk, CHROMA_API_KEY = ck, CHROMA_TENANT = tn,
                            client = cl, knowledge_collection = coll\<rparr>)))
      | _ \<Rightarrow> ([], Inl missing_keys_error))"

section \<open>Request handler\<close>

record QueryRequest =
  query :: pystr
  n_results :: int

record QueryResponse =
  thinking :: pystr
  answer :: pystr

text \<open>
  The request body becomes a \<^verbatim>\<open>QueryRequest\<close>, or is rejected (\<open>None\<close>): \<^verbatim>\<open>query\<close> is
  required, \<^verbatim>\<open>n_results\<close> is 3 when the body has none, a JSON string is a \<^verbatim>\<open>str\<close> and a
  JSON integer is an \<^verbatim>\<open>int\<close> as they are.
\<close>

definition field_str :: "(json \<Rightarrow> exn + pystr) \<Rightarrow> json \<Rightarrow> exn + pystr" where
  "field_str other j = (case j of JStr s \<Rightarrow> Inr s | _ \<Rightarrow> other j)"

definition field_int :: "(json \<Rightarrow> exn + int) \<Rightarrow> json \<Rightarrow> exn + int" where
  "field_int other j = (case j of JInt i \<Rightarrow> Inr i | _ \<Rightarrow> other j)"

definition parse_QueryRequest :: "('client, 'coll) externals \<Rightarrow> json \<Rightarrow> QueryRequest option" where
  "parse_QueryRequest X payload_json =
     (case payload_json of
        JObj kvs \<Rightarrow>
          (case map_of kvs (py ''query'') of
             None \<Rightarrow> None
           | Some jq \<Rightarrow>
               (case field_str (ext_str X) jq of
                  Inl e \<Rightarrow> None
                | Inr q \<Rightarrow>
                    (case map_of kvs (py ''n_results'') of
                       None \<Rightarrow> Some \<lparr>query = q, n_results = 3\<rparr>
                     | Some jn \<Rightarrow>
                         (case field_int (ext_int X) jn of
                            Inl e \<Rightarrow> None
                          | Inr n \<Rightarrow> Some \<lparr>query = q, n_results = n\<rparr>))))
      | _ \<Rightarrow> None)"

text \<open>\<^verbatim>\<open>QueryResponse(thinking=..., answer=...)\<close> with \<^verbatim>\<open>thinking\<close> a string literal.\<close>

definition new_QueryResponse ::
  "('client, 'coll) externals \<Rightarrow> pystr \<Rightarrow> json \<Rightarrow> exn + QueryResponse" where
  "new_QueryResponse X th ans =
     and_then (field_str (ext_str X) ans) (\<lambda>a. Inr \<lparr>thinking = th, answer = a\<rparr>)"

text \<open>How a call of the handler ends.\<close>

datatype outcome =
    Return QueryResponse
  | RaiseHTTPException int pystr
  | Propagate exn

text \<open>
  \<^verbatim>\<open>except Exception as e: raise HTTPException(status_code=500, detail=f"Internal server
  error: {e}")\<close>.
\<close>

definition on_exception :: "exn \<Rightarrow> outcome" where
  "on_exception e =
     (if is_Exception e
      then RaiseHTTPException 500 (py ''Internal server error: '' @ exc_str e)
      else Propagate e)"

definition no_information :: pystr where
  "no_information =
     py ''Sorry, no relevant information found in the knowledge base for your query.''"

text \<open>The handler, with the calls it made to the two clients.\<close>

definition query_jee ::
  "('client, 'coll) externals \<Rightarrow> ('client, 'coll) globals \<Rightarrow> QueryRequest \<Rightarrow> call list \<times> outcome"
where
  "query_jee X G request =
     (case query_chroma_collection (ext_query X) (knowledge_collection G)
             (query request) (n_results request) of
        Inl e \<Rightarrow> ([Retrieval (query request) (n_results request)], on_exception e)
      | Inr context \<Rightarrow>
          if strip context = [] then
            ([Retrieval (query request) (n_results request)],
             Return \<lparr>thinking = [], answer = no_information\<rparr>)
          else
            (case call_perplexity_api (ext_post X) (PERPLEXITY_API_KEY G) (query request) context of
               Inl e \<Rightarrow>
                 ([Retrieval (query request) (n_results request),
                   Generation (query request) context], on_exception e)
             | Inr response_text \<Rightarrow>
                 (case new_QueryResponse X [] response_text of
                    Inl e \<Rightarrow>
                      ([Retrieval (query request) (n_results request),
                        Generation (query request) context], on_exception e)
                  | Inr r \<Rightarrow>
                      ([Retrieval (query request) (n_results request),
                        Generation (query request) context], Return r))))"

text \<open>
  The route \<^verbatim>\<open>POST /api/query\<close>: a body that does not validate is answered 422 before the
  handler runs, a returned model is the body of a 200, an \<^verbatim>\<open>HTTPException\<close> is a response
  with its status and detail.
\<close>

datatype reply =
    Json QueryResponse
  | ErrorDetail int pystr
  | Unprocessable
  | Unhandled exn

fun status :: "reply \<Rightarrow> int option" where
  "status (Json r) = Some 200"
| "status (ErrorDetail s d) = Some s"
| "status Unprocessable = Some 422"
| "status (Unhandled e) = None"

fun respond :: "outcome \<Rightarrow> reply" where
  "respond (Return r) = Json r"
| "respond (RaiseHTTPException s d) = ErrorDetail s d"
| "respond (Propagate e) = Unhandled e"

definition api_query ::
  "('client, 'coll) externals \<Rightarrow> ('client, 'coll) globals \<Rightarrow> json \<Rightarrow> call list \<times> reply" where
  "api_query X G payload_json =
     (case parse_QueryRequest X payload_json of
        None \<Rightarrow> ([], Unprocessable)
      | Some request \<Rightarrow> (case query_jee X G request of (calls, out) \<Rightarrow> (calls, respond out)))"

text \<open>
  The process: the module is loaded, and only when that has not raised are requests
  routed to the handler, each one on its own.
\<close>

definition run ::
  "('client, 'coll) externals \<Rightarrow> (pystr \<rightharpoonup> pystr) \<Rightarrow> json list
     \<Rightarrow> startup_call list \<times> (exn + (call list \<times> reply) list)"
where
  "run X environ requests =
     (case startup X environ of
        (cs, Inl e) \<Rightarrow> (cs, Inl e)
      | (cs, Inr G) \<Rightarrow> (cs, Inr (map (api_query X G) requests)))"

section \<open>Example surroundings\<close>

text \<open>
  Surroundings for concrete runs: a vector database that answers every query with \<open>r\<close>, a
  completion endpoint that answers every request with \<open>p\<close>, and a pydantic that rejects
  what is not already of the declared type.
\<close>

definition validation_error :: exn where
  "validation_error = Raise (OtherException (py ''ValidationError'')) (py ''1 validation error'')"

definition surroundings :: "exn + query_result \<Rightarrow> exn + response \<Rightarrow> (unit, unit) externals" where
  "surroundings r p =
     \<lparr>ext_client = (\<lambda>api_key tenant database. Inr ()),
      ext_get_collection = (\<lambda>cl name. Inr ()),
      ext_query = (\<lambda>coll query_texts n. r),
      ext_post = (\<lambda>u h j. p),
      ext_str = (\<lambda>j. Inl validation_error),
      ext_int = (\<lambda>j. Inl validation_error)\<rparr>"

definition loaded :: "(unit, unit) globals" where
  "loaded = \<lparr>PERPLEXITY_API_KEY = py ''pplx-key'', CHROMA_API_KEY = py ''ck-key'',
             CHROMA_TENANT = py ''tenant-1'', client = (), knowledge_collection = ()\<rparr>"

definition found :: "pystr list \<Rightarrow> exn + query_result" where
  "found docs = Inr \<lparr>documents = DocLists [docs]\<rparr>"

definition completion :: "pystr \<Rightarrow> exn + response" where
  "completion a = Inr \<lparr>status_code = 200, body = py ''{...}'',
     decoded = Inr (JObj [(py ''choices'',
       JList [JObj [(py ''message'', JObj [(py ''content'', JStr a)])]])])\<rparr>"

definition connection_error :: exn where
  "connection_error = Raise (OtherException (py ''ConnectionError'')) (py ''connection refused'')"

definition ask :: "pystr \<Rightarrow> json" where
  "ask q = JObj [(py ''query'', JStr q)]"

definition ask_n :: "pystr \<Rightarrow> int \<Rightarrow> json" where
  "ask_n q n = JObj [(py ''query'', JStr q), (py ''n_results'', JInt n)]"

definition unauthorized :: "exn + response" where
  "unauthorized = Inr \<lparr>status_code = 401, body = py ''Unauthorized'',
     decoded = Inl (Raise (OtherException (py ''JSONDecodeError'')) (py ''Expecting value''))\<rparr>"

text \<open>A vector database that has no collection of the configured name.\<close>

definition not_found :: exn where
  "not_found = Raise (OtherException (py ''NotFoundError'')) (py ''no such collection'')"

definition without_collection :: "(unit, unit) externals" where
  "without_collection =
     (surroundings (found []) unauthorized) \<lparr>ext_get_collection := (\<lambda>cl name. Inl not_found)\<rparr>"

definition environ_complete :: "pystr \<rightharpoonup> pystr" where
  "environ_complete =
     [py ''PERPLEXITY_API_KEY'' \<mapsto> py ''pplx-key'', py ''CHROMA_CLOUD_API_KEY'' \<mapsto> py ''ck-key'',
      py ''CHROMA_CLOUD_TENANT'' \<mapsto> py ''tenant-1'']"

definition environ_without_key :: "pystr \<rightharpoonup> pystr" where
  "environ_without_key =
     [py ''CHROMA_CLOUD_API_KEY'' \<mapsto> py ''ck-key'', py ''CHROMA_CLOUD_TENANT'' \<mapsto> py ''tenant-1'']"

section \<open>Auxiliary facts\<close>

text \<open>\<^verbatim>\<open>not s.strip()\<close> holds exactly for the empty and the white-space-only strings.\<close>

lemma strip_empty_iff: "strip s = [] \<longleftrightarrow> (\<forall>c\<in>set s. isspace c)"
proof
  assume "strip s = []"
  then have a: "\<forall>c\<in>set (dropWhile isspace s). isspace c"
    by (simp add: strip_def dropWhile_eq_Nil_conv)
  have "dropWhile isspace s = []"
  proof (rule ccontr)
    assume ne: "dropWhile isspace s \<noteq> []"
    then have "\<not> isspace (hd (dropWhile isspace s))" by (rule hd_dropWhile)
    moreover have "hd (dropWhile isspace s) \<in> set (dropWhile isspace s)" using ne by simp
    ultimately show False using a by blast
  qed
  then show "\<forall>c\<in>set s. isspace c" by (simp add: dropWhile_eq_Nil_conv)
next
  assume "\<forall>c\<in>set s. isspace c"
  then have d: "dropWhile isspace s = []" by (simp add: dropWhile_eq_Nil_conv)
  show "strip s = []" unfolding strip_def d by simp
qed

text \<open>Two or more joined documents hold the dashes of the separator.\<close>

lemma join_not_blank:
  assumes "docs \<noteq> []" and "\<And>d. docs = [d] \<Longrightarrow> \<exists>c\<in>set d. \<not> isspace c"
  shows "\<exists>c\<in>set (join separator docs). \<not> isspace c"
proof (cases docs)
  case Nil
  with assms(1) show ?thesis by simp
next
  case (Cons d ds)
  show ?thesis
  proof (cases ds)
    case Nil
    with Cons assms(2) show ?thesis by simp
  next
    case (Cons e es)
    have "45 \<in> set separator" by (simp add: separator_def py_def)
    moreover have "\<not> isspace 45" by (simp add: isspace_def)
    ultimately show ?thesis
      using \<open>docs = d # ds\<close> Cons by auto
  qed
qed

text \<open>Every run of the handler starts with its one call of the retrieval client.\<close>

lemma query_jee_calls:
  "\<exists>rest. fst (query_jee X G req) = Retrieval (query req) (n_results req) # rest
     \<and> (\<forall>q n. Retrieval q n \<notin> set rest)"
  by (auto simp: query_jee_def split: sum.splits)

lemma query_jee_not_propagate:
  "is_Exception e \<Longrightarrow> snd (query_jee X G req) \<noteq> Propagate e"
  by (auto simp: query_jee_def on_exception_def split: sum.splits if_splits)

lemma query_jee_http_exception:
  "snd (query_jee X G req) = RaiseHTTPException s d \<Longrightarrow>
     s = 500 \<and> (\<exists>e. is_Exception e \<and> d = py ''Internal server error: '' @ exc_str e)"
  by (auto simp: query_jee_def on_exception_def split: sum.splits if_splits)

lemma retrieve_service_raises:
  "collection_query coll [q] n = Inl e \<Longrightarrow>
     query_chroma_collection collection_query coll q n = Inl e"
  by (simp add: query_chroma_collection_def)

lemma call_post_raises:
  "requests_post url (headers key) (payload (prompt q context)) = Inl e \<Longrightarrow>
     call_perplexity_api requests_post key q context = Inl e"
  by (simp add: call_perplexity_api_def)

text \<open>
  The handler consults the vector database only at the request's query and result count,
  and the completion endpoint only at the request built from the query and the context.
\<close>

lemma parse_QueryRequest_ext_query:
  "parse_QueryRequest (X\<lparr>ext_query := f\<rparr>) b = parse_QueryRequest X b"
  by (simp add: parse_QueryRequest_def cong: json.case_cong option.case_cong sum.case_cong)

lemma query_jee_ext_query:
  assumes "f (knowledge_collection G) [query req] (n_results req)
             = ext_query X (knowledge_collection G) [query req] (n_results req)"
  shows "query_jee (X\<lparr>ext_query := f\<rparr>) G req = query_jee X G req"
  using assms
  by (simp add: query_jee_def query_chroma_collection_def new_QueryResponse_def
        cong: sum.case_cong if_cong)

lemma query_jee_ext_post:
  assumes "query_chroma_collection (ext_query X) (knowledge_collection G) (query req) (n_results req)
             = Inr ctx"
    and "g url (headers (PERPLEXITY_API_KEY G)) (payload (prompt (query req) ctx))
           = ext_post X url (headers (PERPLEXITY_API_KEY G)) (payload (prompt (query req) ctx))"
  shows "query_jee (X\<lparr>ext_post := g\<rparr>) G req = query_jee X G req"
  using assms
  by (simp add: query_jee_def call_perplexity_api_def new_QueryResponse_def
        cong: sum.case_cong if_cong)

lemma query_jee_retrieval_raises:
  assumes "is_Exception e"
    and "ext_query X (knowledge_collection G) [query req] (n_results req) = Inl e"
  shows "query_jee X G req =
           ([Retrieval (query req) (n_results req)],
            RaiseHTTPException 500 (py ''Internal server error: '' @ exc_str e))"
  using assms by (simp add: query_jee_def query_chroma_collection_def on_exception_def)

lemma query_jee_generation_raises:
  assumes "query_chroma_collection (ext_query X) (knowledge_collection G) (query req) (n_results req)
             = Inr ctx"
    and "strip ctx \<noteq> []"
    and "is_Exception e"
    and "ext_post X url (headers (PERPLEXITY_API_KEY G)) (payload (prompt (query req) ctx)) = Inl e"
  shows "query_jee X G req =
           ([Retrieval (query req) (n_results req), Generation (query req) ctx],
            RaiseHTTPException 500 (py ''Internal server error: '' @ exc_str e))"
  using assms by (simp add: query_jee_def call_perplexity_api_def on_exception_def)

lemma query_jee_generation_answers:
  assumes "query_chroma_collection (ext_query X) (knowledge_collection G) (query req) (n_results req)
             = Inr ctx"
    and "strip ctx \<noteq> []"
    and "call_perplexity_api (ext_post X) (PERPLEXITY_API_KEY G) (query req) ctx = Inr (JStr a)"
  shows "query_jee X G req =
           ([Retrieval (query req) (n_results req), Generation (query req) ctx],
            Return \<lparr>thinking = [], answer = a\<rparr>)"
  using assms by (simp add: query_jee_def new_QueryResponse_def field_str_def)

lemma run_startup_fails:
  "startup X environ = (cs, Inl e) \<Longrightarrow> run X environ requests = (cs, Inl e)"
  by (simp add: run_def)

text \<open>The example surroundings, evaluated.\<close>

lemma parse_ask: "parse_QueryRequest X (ask q) = Some \<lparr>query = q, n_results = 3\<rparr>"
  by (simp add: parse_QueryRequest_def ask_def field_str_def py_def)

lemma parse_ask_n: "parse_QueryRequest X (ask_n q n) = Some \<lparr>query = q, n_results = n\<rparr>"
  by (simp add: parse_QueryRequest_def ask_n_def field_str_def field_int_def py_def)

lemma retrieve_found:
  "query_chroma_collection (ext_query (surroundings (found docs) p)) c q n
     = Inr (if docs \<noteq> [] then join separator docs else [])"
  by (simp add: query_chroma_collection_def surroundings_def found_def)

lemma retrieve_raises:
  "query_chroma_collection (ext_query (surroundings (Inl e) p)) c q n = Inl e"
  by (simp add: query_chroma_collection_def surroundings_def)

lemma call_raises:
  "call_perplexity_api (ext_post (surroundings r (Inl e))) k q c = Inl e"
  by (simp add: call_perplexity_api_def surroundings_def)

lemma call_completion:
  "call_perplexity_api (ext_post (surroundings r (completion a))) k q c = Inr (JStr a)"
  by (simp add: call_perplexity_api_def surroundings_def completion_def py_def)

lemma strip_Doc: "strip (py ''Doc A'' @ rest @ py ''Doc B'') \<noteq> []"
  by (simp add: strip_empty_iff py_def isspace_def)

lemma strip_blank: "strip (py '' '') = []"
  by (simp add: strip_def py_def isspace_def)

lemma str_int_401: "str_int 401 = py ''401''"
  by (simp add: str_int_def str_nat.simps py_def)

lemma api_two_docs:
  "api_query (surroundings (found [py ''Doc A'', py ''Doc B'']) (completion (py ''<p>ok</p>''))) loaded
     (ask (py ''What is projectile motion?''))
   = ([Retrieval (py ''What is projectile motion?'') 3,
       Generation (py ''What is projectile motion?'') (py ''Doc A'' @ separator @ py ''Doc B'')],
      Json \<lparr>thinking = [], answer = py ''<p>ok</p>''\<rparr>)"
  by (simp add: api_query_def parse_ask query_jee_def retrieve_found call_completion strip_Doc
        new_QueryResponse_def field_str_def)

lemma api_no_docs:
  "api_query (surroundings (found []) p) loaded (ask_n q n)
     = ([Retrieval q n], Json \<lparr>thinking = [], answer = no_information\<rparr>)"
  by (simp add: api_query_def parse_ask_n query_jee_def retrieve_found strip_def)

section \<open>Properties of the request handler\<close>

text \<open>
  C1, as stated, fails on the code. For the retrieval result \<^verbatim>\<open>["Doc A", "Doc B"]\<close> the
  generation client is called with \<^verbatim>\<open>"Doc A\n\n---\n\nDoc B"\<close>, which is not the text
  \<^verbatim>\<open>"Doc A\n\n---\n\n Doc B"\<close> of the claim (no space follows the separator); and for the
  retrieval result \<^verbatim>\<open>[" "]\<close>, which holds one document, the generation client is not
  called at all, since the joined context is white space.
\<close>

theorem joined_context_example_counterexample:
  "fst (query_jee (surroundings (found [py ''Doc A'', py ''Doc B'']) (completion (py ''<p>ok</p>'')))
          loaded \<lparr>query = py ''What is projectile motion?'', n_results = 3\<rparr>)
     = [Retrieval (py ''What is projectile motion?'') 3,
        Generation (py ''What is projectile motion?'')
          (py ''Doc A'' @ nl @ nl @ py ''---'' @ nl @ nl @ py ''Doc B'')]
   \<and> py ''Doc A'' @ nl @ nl @ py ''---'' @ nl @ nl @ py ''Doc B''
       \<noteq> py ''Doc A'' @ nl @ nl @ py ''---'' @ nl @ nl @ py '' Doc B''
   \<and> fst (query_jee (surroundings (found [py '' '']) (completion (py ''<p>ok</p>'')))
          loaded \<lparr>query = py ''What is projectile motion?'', n_results = 3\<rparr>)
     = [Retrieval (py ''What is projectile motion?'') 3]"
proof -
  let ?q = "py ''What is projectile motion?''"
  have a: "fst (query_jee (surroundings (found [py ''Doc A'', py ''Doc B'']) (completion (py ''<p>ok</p>'')))
                  loaded \<lparr>query = ?q, n_results = 3\<rparr>)
             = [Retrieval ?q 3, Generation ?q (py ''Doc A'' @ separator @ py ''Doc B'')]"
    by (simp add: query_jee_def retrieve_found call_completion strip_Doc
          new_QueryResponse_def field_str_def)
  have b: "fst (query_jee (surroundings (found [py '' '']) (completion (py ''<p>ok</p>'')))
                  loaded \<lparr>query = ?q, n_results = 3\<rparr>)
             = [Retrieval ?q 3]"
    by (simp add: query_jee_def retrieve_found strip_blank)
  have d: "py ''Doc A'' @ nl @ nl @ py ''---'' @ nl @ nl @ py ''Doc B''
             \<noteq> py ''Doc A'' @ nl @ nl @ py ''---'' @ nl @ nl @ py '' Doc B''"
    by (simp add: py_def nl_def)
  from a have a': "fst (query_jee (surroundings (found [py ''Doc A'', py ''Doc B'']) (completion (py ''<p>ok</p>'')))
                  loaded \<lparr>query = ?q, n_results = 3\<rparr>)
             = [Retrieval ?q 3, Generation ?q (py ''Doc A'' @ nl @ nl @ py ''---'' @ nl @ nl @ py ''Doc B'')]"
    by (simp add: separator_def)
  from a' b d show ?thesis by blast
qed

text \<open>
  C1, amended: for every request whose retrieval yields at least one document, unless it
  yields a single document that is empty or white space only, the handler calls the
  retrieval client and then the generation client exactly once, with the original query
  text and with the context \<open>join separator docs\<close>: the documents' texts in the order the
  retrieval service returned them, each adjacent pair joined by \<^verbatim>\<open>"\n\n---\n\n"\<close> and nothing
  else. The call is a real one: the handler's outcome depends on the completion endpoint
  only through its answer to the request built from that query and that context, an
  exception raised there becomes the 500, and a text the generation client returns is the
  answer of the reply.
\<close>

theorem generation_called_once_with_joined_context:
  assumes "ext_query X (knowledge_collection G) [query req] (n_results req) = Inr results"
    and "documents results = DocLists (docs # rest)"
    and "docs \<noteq> []"
    and "\<And>d. docs = [d] \<Longrightarrow> \<exists>c\<in>set d. \<not> isspace c"
  shows "fst (query_jee X G req) =
           [Retrieval (query req) (n_results req), Generation (query req) (join separator docs)]
       \<and> (\<forall>g. g url (headers (PERPLEXITY_API_KEY G))
                  (payload (prompt (query req) (join separator docs)))
                = ext_post X url (headers (PERPLEXITY_API_KEY G))
                    (payload (prompt (query req) (join separator docs))) \<longrightarrow>
              query_jee (X\<lparr>ext_post := g\<rparr>) G req = query_jee X G req)
       \<and> (\<forall>e. is_Exception e \<and>
              ext_post X url (headers (PERPLEXITY_API_KEY G))
                (payload (prompt (query req) (join separator docs))) = Inl e \<longrightarrow>
              snd (query_jee X G req)
                = RaiseHTTPException 500 (py ''Internal server error: '' @ exc_str e))
       \<and> (\<forall>a. call_perplexity_api (ext_post X) (PERPLEXITY_API_KEY G) (query req)
                  (join separator docs) = Inr (JStr a) \<longrightarrow>
              snd (query_jee X G req) = Return \<lparr>thinking = [], answer = a\<rparr>)"
proof -
  have c: "query_chroma_collection (ext_query X) (knowledge_collection G) (query req) (n_results req)
             = Inr (join separator docs)"
    using assms(1-3) by (simp add: query_chroma_collection_def)
  have "\<exists>c\<in>set (join separator docs). \<not> isspace c"
    using assms(3,4) by (rule join_not_blank)
  then have s: "strip (join separator docs) \<noteq> []"
    by (simp add: strip_empty_iff)
  have t: "fst (query_jee X G req) =
             [Retrieval (query req) (n_results req), Generation (query req) (join separator docs)]"
    using c s by (simp add: query_jee_def split: sum.splits)
  have d: "query_jee (X\<lparr>ext_post := g\<rparr>) G req = query_jee X G req"
    if "g url (headers (PERPLEXITY_API_KEY G)) (payload (prompt (query req) (join separator docs)))
          = ext_post X url (headers (PERPLEXITY_API_KEY G))
              (payload (prompt (query req) (join separator docs)))" for g
    using c that by (rule query_jee_ext_post)
  have e: "snd (query_jee X G req)
             = RaiseHTTPException 500 (py ''Internal server error: '' @ exc_str e)"
    if "is_Exception e \<and>
        ext_post X url (headers (PERPLEXITY_API_KEY G))
          (payload (prompt (query req) (join separator docs))) = Inl e" for e
    using query_jee_generation_raises [OF c s, of e] that by simp
  have a: "snd (query_jee X G req) = Return \<lparr>thinking = [], answer = a\<rparr>"
    if "call_perplexity_api (ext_post X) (PERPLEXITY_API_KEY G) (query req)
          (join separator docs) = Inr (JStr a)" for a
    using query_jee_generation_answers [OF c s that] by simp
  from t d e a show ?thesis by blast
qed

theorem generation_called_once_with_joined_context_witness:
  "fst (query_jee (surroundings (found [py ''Doc A'', py ''Doc B'']) (completion (py ''<p>ok</p>'')))
          loaded \<lparr>query = py ''What is projectile motion?'', n_results = 3\<rparr>)
     = [Retrieval (py ''What is projectile motion?'') 3,
        Generation (py ''What is projectile motion?'')
          (py ''Doc A'' @ nl @ nl @ py ''---'' @ nl @ nl @ py ''Doc B'')]
   \<and> snd (query_jee (surroundings (found [py ''Doc A'', py ''Doc B'']) (completion (py ''<p>ok</p>'')))
          loaded \<lparr>query = py ''What is projectile motion?'', n_results = 3\<rparr>)
     = Return \<lparr>thinking = [], answer = py ''<p>ok</p>''\<rparr>
   \<and> fst (query_jee (surroundings (found [py ''Doc A'']) (completion (py ''<p>ok</p>'')))
          loaded \<lparr>query = py ''What is projectile motion?'', n_results = 3\<rparr>)
     = [Retrieval (py ''What is projectile motion?'') 3,
        Generation (py ''What is projectile motion?'') (py ''Doc A'')]"
proof -
  let ?c = "completion (py ''<p>ok</p>'')"
  let ?req = "\<lparr>query = py ''What is projectile motion?'', n_results = 3\<rparr>"
  have q: "ext_query (surroundings (found docs) ?c) (knowledge_collection loaded) [query ?req]
             (n_results ?req) = Inr \<lparr>documents = DocLists (docs # [])\<rparr>" for docs
    by (simp add: surroundings_def found_def)
  have d: "documents \<lparr>documents = DocLists (docs # [])\<rparr> = DocLists (docs # [])" for docs
    by simp
  have two: "\<exists>c\<in>set d. \<not> isspace c" if "[py ''Doc A'', py ''Doc B''] = [d]" for d
    using that by simp
  have one: "\<exists>c\<in>set d. \<not> isspace c" if "[py ''Doc A''] = [d]" for d
    using that by (auto simp: py_def isspace_def)
  note both = generation_called_once_with_joined_context
                [OF q d _ two, of "[py ''Doc A'', py ''Doc B'']"]
  from both [THEN conjunct1]
  have a: "fst (query_jee (surroundings (found [py ''Doc A'', py ''Doc B'']) ?c) loaded ?req)
             = [Retrieval (py ''What is projectile motion?'') 3,
                Generation (py ''What is projectile motion?'')
                  (py ''Doc A'' @ nl @ nl @ py ''---'' @ nl @ nl @ py ''Doc B'')]"
    by (simp add: separator_def)
  from both [THEN conjunct2, THEN conjunct2, THEN conjunct2]
  have r: "snd (query_jee (surroundings (found [py ''Doc A'', py ''Doc B'']) ?c) loaded ?req)
             = Return \<lparr>thinking = [], answer = py ''<p>ok</p>''\<rparr>"
    by (simp add: call_completion)
  from generation_called_once_with_joined_context
         [OF q d _ one, of "[py ''Doc A'']", THEN conjunct1]
  have b: "fst (query_jee (surroundings (found [py ''Doc A'']) ?c) loaded ?req)
             = [Retrieval (py ''What is projectile motion?'') 3,
                Generation (py ''What is projectile motion?'') (py ''Doc A'')]"
    by simp
  from a r b show ?thesis by blast
qed

text \<open>
  C2: for every request for which the retrieval step returns an empty or white-space-only
  context, the reply has status 200 and is the response whose \<^verbatim>\<open>thinking\<close> is the empty
  string and whose \<^verbatim>\<open>answer\<close> is the fixed sentence; the only call made is the one to the
  retrieval client, so the generation client is never invoked.
\<close>

theorem empty_context_canned_reply:
  assumes "parse_QueryRequest X b = Some req"
    and "query_chroma_collection (ext_query X) (knowledge_collection G) (query req) (n_results req)
           = Inr context"
    and "\<forall>c\<in>set context. isspace c"
  shows "api_query X G b =
           ([Retrieval (query req) (n_results req)],
            Json \<lparr>thinking = [],
                  answer = py ''Sorry, no relevant information found in the knowledge base for your query.''\<rparr>)
         \<and> status (snd (api_query X G b)) = Some 200
         \<and> (\<forall>q c. Generation q c \<notin> set (fst (api_query X G b)))"
proof -
  have "strip context = []" using assms(3) by (simp add: strip_empty_iff)
  then have "query_jee X G req =
      ([Retrieval (query req) (n_results req)], Return \<lparr>thinking = [], answer = no_information\<rparr>)"
    using assms(2) by (simp add: query_jee_def)
  then show ?thesis using assms(1) by (simp add: api_query_def no_information_def)
qed

theorem empty_context_canned_reply_witness:
  "api_query (surroundings (found []) (Inl connection_error)) loaded (ask (py ''asdkjhasd''))
     = ([Retrieval (py ''asdkjhasd'') 3],
        Json \<lparr>thinking = [],
              answer = py ''Sorry, no relevant information found in the knowledge base for your query.''\<rparr>)
   \<and> status (snd (api_query (surroundings (found []) (Inl connection_error)) loaded
                    (ask (py ''asdkjhasd'')))) = Some 200"
  using empty_context_canned_reply
    [of "surroundings (found []) (Inl connection_error)" "ask (py ''asdkjhasd'')"
        "\<lparr>query = py ''asdkjhasd'', n_results = 3\<rparr>" loaded "[]"]
  by (simp add: parse_ask retrieve_found)

text \<open>
  C3: for every request, an exception (an instance of \<^verbatim>\<open>Exception\<close>) raised by the retrieval
  call or by the generation call, be it raised by the remote call or inside the client, is
  caught in the handler and becomes one \<^verbatim>\<open>HTTPException\<close> with status 500 whose detail is
  \<^verbatim>\<open>"Internal server error: "\<close> followed by the text of the exception; the handler never
  lets such an exception out, and whenever it raises an \<^verbatim>\<open>HTTPException\<close> it is of that form.
\<close>

theorem exceptions_become_500:
  assumes "is_Exception e"
  shows "(ext_query X (knowledge_collection G) [query req] (n_results req) = Inl e
            \<or> query_chroma_collection (ext_query X) (knowledge_collection G) (query req) (n_results req)
                = Inl e \<longrightarrow>
          query_jee X G req =
            ([Retrieval (query req) (n_results req)],
             RaiseHTTPException 500 (py ''Internal server error: '' @ exc_str e)))
       \<and> (\<forall>context.
            query_chroma_collection (ext_query X) (knowledge_collection G) (query req) (n_results req)
              = Inr context \<and> strip context \<noteq> [] \<and>
            (ext_post X url (headers (PERPLEXITY_API_KEY G)) (payload (prompt (query req) context))
               = Inl e
             \<or> call_perplexity_api (ext_post X) (PERPLEXITY_API_KEY G) (query req) context = Inl e)
            \<longrightarrow>
            query_jee X G req =
              ([Retrieval (query req) (n_results req), Generation (query req) context],
               RaiseHTTPException 500 (py ''Internal server error: '' @ exc_str e)))
       \<and> snd (query_jee X G req) \<noteq> Propagate e
       \<and> (\<forall>s d. snd (query_jee X G req) = RaiseHTTPException s d \<longrightarrow>
            s = 500 \<and> (\<exists>e'. is_Exception e' \<and> d = py ''Internal server error: '' @ exc_str e'))"
proof -
  have r: "query_jee X G req =
            ([Retrieval (query req) (n_results req)],
             RaiseHTTPException 500 (py ''Internal server error: '' @ exc_str e))"
    if "ext_query X (knowledge_collection G) [query req] (n_results req) = Inl e
          \<or> query_chroma_collection (ext_query X) (knowledge_collection G) (query req) (n_results req)
              = Inl e"
  proof -
    from that
    have "query_chroma_collection (ext_query X) (knowledge_collection G) (query req) (n_results req)
            = Inl e"
      by (auto simp: query_chroma_collection_def)
    then show ?thesis using assms by (simp add: query_jee_def on_exception_def)
  qed
  have g: "query_jee X G req =
              ([Retrieval (query req) (n_results req), Generation (query req) ctx],
               RaiseHTTPException 500 (py ''Internal server error: '' @ exc_str e))"
    if "query_chroma_collection (ext_query X) (knowledge_collection G) (query req) (n_results req)
          = Inr ctx \<and> strip ctx \<noteq> [] \<and>
        (ext_post X url (headers (PERPLEXITY_API_KEY G)) (payload (prompt (query req) ctx)) = Inl e
         \<or> call_perplexity_api (ext_post X) (PERPLEXITY_API_KEY G) (query req) ctx = Inl e)"
    for ctx
  proof -
    from that
    have "call_perplexity_api (ext_post X) (PERPLEXITY_API_KEY G) (query req) ctx = Inl e"
      by (auto simp: call_perplexity_api_def)
    with that show ?thesis using assms by (simp add: query_jee_def on_exception_def)
  qed
  have p: "snd (query_jee X G req) \<noteq> Propagate e"
    using assms by (rule query_jee_not_propagate)
  have h: "s = 500 \<and> (\<exists>e'. is_Exception e' \<and> d = py ''Internal server error: '' @ exc_str e')"
    if "snd (query_jee X G req) = RaiseHTTPException s d" for s d
    using that by (rule query_jee_http_exception)
  from r g p h show ?thesis by blast
qed

theorem exceptions_become_500_witness:
  "query_jee (surroundings (Inl connection_error) (completion (py ''<p>ok</p>''))) loaded
     \<lparr>query = py ''q'', n_results = 3\<rparr>
     = ([Retrieval (py ''q'') 3],
        RaiseHTTPException 500 (py ''Internal server error: connection refused''))
   \<and> query_jee (surroundings (found [py ''Doc A'', py ''Doc B'']) (Inl connection_error)) loaded
       \<lparr>query = py ''q'', n_results = 3\<rparr>
     = ([Retrieval (py ''q'') 3, Generation (py ''q'') (py ''Doc A'' @ separator @ py ''Doc B'')],
        RaiseHTTPException 500 (py ''Internal server error: connection refused''))"
proof -
  let ?req = "\<lparr>query = py ''q'', n_results = 3\<rparr>"
  have e: "is_Exception connection_error"
    by (simp add: connection_error_def)
  have m: "py ''Internal server error: '' @ exc_str connection_error
             = py ''Internal server error: connection refused''"
    by (simp add: connection_error_def py_def)
  from exceptions_become_500
         [OF e, of "surroundings (Inl connection_error) (completion (py ''<p>ok</p>''))" loaded ?req,
          THEN conjunct1]
  have a: "query_jee (surroundings (Inl connection_error) (completion (py ''<p>ok</p>''))) loaded ?req
             = ([Retrieval (py ''q'') 3],
                RaiseHTTPException 500 (py ''Internal server error: connection refused''))"
    by (simp add: retrieve_raises m)
  from exceptions_become_500
         [OF e, of "surroundings (found [py ''Doc A'', py ''Doc B'']) (Inl connection_error)" loaded ?req,
          THEN conjunct2, THEN conjunct1]
  have b: "query_jee (surroundings (found [py ''Doc A'', py ''Doc B'']) (Inl connection_error)) loaded ?req
             = ([Retrieval (py ''q'') 3, Generation (py ''q'') (py ''Doc A'' @ separator @ py ''Doc B'')],
                RaiseHTTPException 500 (py ''Internal server error: connection refused''))"
    by (simp add: retrieve_found call_raises strip_Doc m)
  from a b show ?thesis by simp
qed

text \<open>
  C5: whenever the completion endpoint answers with a status other than 200,
  \<open>call_perplexity_api\<close> raises an exception whose text is \<^verbatim>\<open>"Perplexity API error: "\<close>, the
  status code in decimal, a space, and the raw body of the answer; the handler, having
  called the generation client once, then raises the \<^verbatim>\<open>HTTPException\<close> with status 500 whose
  detail is \<^verbatim>\<open>"Internal server error: "\<close> followed by that text.
\<close>

theorem non_200_is_server_error:
  assumes "ext_post X url (headers (PERPLEXITY_API_KEY G)) (payload (prompt (query req) context))
             = Inr resp"
    and "status_code resp \<noteq> 200"
  shows "call_perplexity_api (ext_post X) (PERPLEXITY_API_KEY G) (query req) context =
           Inl (Raise PlainException
                  (py ''Perplexity API error: '' @ str_int (status_code resp) @ py '' '' @ body resp))
       \<and> (query_chroma_collection (ext_query X) (knowledge_collection G) (query req) (n_results req)
             = Inr context \<and> strip context \<noteq> [] \<longrightarrow>
          query_jee X G req =
            ([Retrieval (query req) (n_results req), Generation (query req) context],
             RaiseHTTPException 500
               (py ''Internal server error: '' @ py ''Perplexity API error: ''
                  @ str_int (status_code resp) @ py '' '' @ body resp)))"
  using assms by (simp add: call_perplexity_api_def query_jee_def on_exception_def)

theorem non_200_is_server_error_witness:
  "api_query (surroundings (found [py ''Doc A'', py ''Doc B'']) unauthorized) loaded (ask (py ''q''))
     = ([Retrieval (py ''q'') 3, Generation (py ''q'') (py ''Doc A'' @ separator @ py ''Doc B'')],
        ErrorDetail 500 (py ''Internal server error: Perplexity API error: 401 Unauthorized''))"
proof -
  let ?X = "surroundings (found [py ''Doc A'', py ''Doc B'']) unauthorized"
  let ?req = "\<lparr>query = py ''q'', n_results = 3\<rparr>"
  let ?resp = "\<lparr>status_code = 401, body = py ''Unauthorized'',
                 decoded = Inl (Raise (OtherException (py ''JSONDecodeError'')) (py ''Expecting value''))\<rparr>"
  have p: "ext_post ?X url (headers (PERPLEXITY_API_KEY loaded))
             (payload (prompt (query ?req) (py ''Doc A'' @ separator @ py ''Doc B''))) = Inr ?resp"
    by (simp add: surroundings_def unauthorized_def)
  have s: "status_code ?resp \<noteq> 200" by simp
  have m: "py ''Internal server error: '' @ py ''Perplexity API error: '' @ str_int 401 @ py '' ''
             @ py ''Unauthorized'' = py ''Internal server error: Perplexity API error: 401 Unauthorized''"
    by (simp add: str_int_401) (simp add: py_def)
  from non_200_is_server_error [OF p s]
  have "query_jee ?X loaded ?req
          = ([Retrieval (py ''q'') 3, Generation (py ''q'') (py ''Doc A'' @ separator @ py ''Doc B'')],
             RaiseHTTPException 500 (py ''Internal server error: Perplexity API error: 401 Unauthorized''))"
    by (simp add: retrieve_found strip_Doc m)
  then show ?thesis by (simp add: api_query_def parse_ask)
qed

text \<open>
  C6: for every request body that has no \<^verbatim>\<open>n_results\<close> entry and passes validation, the
  parsed \<^verbatim>\<open>QueryRequest\<close> has \<^verbatim>\<open>n_results\<close> equal to 3, and the retrieval client is invoked
  with the request's query and \<^verbatim>\<open>n_results = 3\<close>: that call is the first and the only
  retrieval call; the reply depends on the vector database only through its answer to that
  query with result count 3; an exception it raises there is the detail of the 500 reply,
  and an empty list of documents returned there gives the canned reply.
\<close>

theorem n_results_defaults_to_3:
  assumes "map_of kvs (py ''n_results'') = None"
    and "parse_QueryRequest X (JObj kvs) = Some req"
  shows "n_results req = 3
       \<and> (\<exists>rest. fst (api_query X G (JObj kvs)) = Retrieval (query req) 3 # rest
             \<and> (\<forall>q n. Retrieval q n \<notin> set rest))
       \<and> (\<forall>f. f (knowledge_collection G) [query req] 3
                  = ext_query X (knowledge_collection G) [query req] 3 \<longrightarrow>
                api_query (X\<lparr>ext_query := f\<rparr>) G (JObj kvs) = api_query X G (JObj kvs))
       \<and> (\<forall>e. is_Exception e \<and> ext_query X (knowledge_collection G) [query req] 3 = Inl e \<longrightarrow>
                api_query X G (JObj kvs) =
                  ([Retrieval (query req) 3],
                   ErrorDetail 500 (py ''Internal server error: '' @ exc_str e)))
       \<and> (\<forall>results rest. ext_query X (knowledge_collection G) [query req] 3 = Inr results
                \<and> documents results = DocLists ([] # rest) \<longrightarrow>
                api_query X G (JObj kvs) =
                  ([Retrieval (query req) 3],
                   Json \<lparr>thinking = [],
                         answer = py ''Sorry, no relevant information found in the knowledge base for your query.''\<rparr>))"
proof -
  have n: "n_results req = 3"
    using assms by (auto simp: parse_QueryRequest_def split: option.splits sum.splits)
  have a: "api_query Y G (JObj kvs) = (fst (query_jee Y G req), respond (snd (query_jee Y G req)))"
    if "parse_QueryRequest Y (JObj kvs) = Some req" for Y :: "('a, 'b) externals"
    using that by (simp add: api_query_def split: prod.splits)
  have c: "\<exists>rest. fst (api_query X G (JObj kvs)) = Retrieval (query req) 3 # rest
             \<and> (\<forall>q n. Retrieval q n \<notin> set rest)"
    using n query_jee_calls [of X G req] a [OF assms(2)] by simp
  have d: "api_query (X\<lparr>ext_query := f\<rparr>) G (JObj kvs) = api_query X G (JObj kvs)"
    if "f (knowledge_collection G) [query req] 3
          = ext_query X (knowledge_collection G) [query req] 3" for f
  proof -
    have "query_jee (X\<lparr>ext_query := f\<rparr>) G req = query_jee X G req"
      using that n by (simp add: query_jee_ext_query)
    moreover have "parse_QueryRequest (X\<lparr>ext_query := f\<rparr>) (JObj kvs) = Some req"
      using assms(2) by (simp add: parse_QueryRequest_ext_query)
    ultimately show ?thesis using a [OF assms(2)] a [of "X\<lparr>ext_query := f\<rparr>"] by simp
  qed
  have e: "api_query X G (JObj kvs) =
             ([Retrieval (query req) 3], ErrorDetail 500 (py ''Internal server error: '' @ exc_str e))"
    if "is_Exception e \<and> ext_query X (knowledge_collection G) [query req] 3 = Inl e" for e
    using that n a [OF assms(2)] query_jee_retrieval_raises [of e X G req] by simp
  have z: "api_query X G (JObj kvs) =
             ([Retrieval (query req) 3],
              Json \<lparr>thinking = [],
                    answer = py ''Sorry, no relevant information found in the knowledge base for your query.''\<rparr>)"
    if "ext_query X (knowledge_collection G) [query req] 3 = Inr results
          \<and> documents results = DocLists ([] # rest)" for results rest
    using that n a [OF assms(2)]
    by (simp add: query_jee_def query_chroma_collection_def strip_def no_information_def)
  from n c d e z show ?thesis by blast
qed

theorem n_results_defaults_to_3_witness:
  "n_results \<lparr>query = py ''q'', n_results = 3\<rparr> = 3
   \<and> (\<exists>rest. fst (api_query (surroundings (found []) unauthorized) loaded
                    (JObj [(py ''query'', JStr (py ''q''))]))
               = Retrieval (py ''q'') 3 # rest)
   \<and> api_query (surroundings (Inl connection_error) unauthorized) loaded
        (JObj [(py ''query'', JStr (py ''q''))])
      = ([Retrieval (py ''q'') 3],
         ErrorDetail 500 (py ''Internal server error: connection refused''))
   \<and> api_query (surroundings (found []) unauthorized) loaded
        (JObj [(py ''query'', JStr (py ''q''))])
      = ([Retrieval (py ''q'') 3],
         Json \<lparr>thinking = [],
               answer = py ''Sorry, no relevant information found in the knowledge base for your query.''\<rparr>)"
proof -
  let ?b = "JObj [(py ''query'', JStr (py ''q''))]"
  have m: "map_of [(py ''query'', JStr (py ''q''))] (py ''n_results'') = None"
    by (simp add: py_def)
  have p: "parse_QueryRequest (surroundings r unauthorized) ?b
             = Some \<lparr>query = py ''q'', n_results = 3\<rparr>" for r
    using parse_ask [of "surroundings r unauthorized" "py ''q''"] by (simp add: ask_def)
  have e: "is_Exception connection_error"
    by (simp add: connection_error_def)
  have t: "py ''Internal server error: '' @ exc_str connection_error
             = py ''Internal server error: connection refused''"
    by (simp add: connection_error_def py_def)
  note found = n_results_defaults_to_3 [OF m p, of "found []" loaded]
  note down = n_results_defaults_to_3 [OF m p, of "Inl connection_error" loaded]
  from found have a: "n_results \<lparr>query = py ''q'', n_results = 3\<rparr> = 3
      \<and> (\<exists>rest. fst (api_query (surroundings (found []) unauthorized) loaded ?b)
                   = Retrieval (py ''q'') 3 # rest)"
    by auto
  from down [THEN conjunct2, THEN conjunct2, THEN conjunct2, THEN conjunct1]
  have b: "api_query (surroundings (Inl connection_error) unauthorized) loaded ?b
      = ([Retrieval (py ''q'') 3],
         ErrorDetail 500 (py ''Internal server error: connection refused''))"
    using e by (simp add: surroundings_def t)
  from found [THEN conjunct2, THEN conjunct2, THEN conjunct2, THEN conjunct2]
  have c: "api_query (surroundings (found []) unauthorized) loaded ?b
      = ([Retrieval (py ''q'') 3],
         Json \<lparr>thinking = [],
               answer = py ''Sorry, no relevant information found in the knowledge base for your query.''\<rparr>)"
    by (simp add: surroundings_def found_def)
  from a b c show ?thesis by blast
qed




text \<open>
  C9: every reply with status 200 is a \<^verbatim>\<open>QueryResponse\<close> whose \<^verbatim>\<open>thinking\<close> field is the empty
  string, whichever branch of the handler produced it.
\<close>

theorem thinking_always_empty:
  assumes "api_query X G b = (calls, rep)" and "status rep = Some 200"
  shows "\<exists>a. rep = Json \<lparr>thinking = [], answer = a\<rparr>"
  using assms
  by (auto simp: api_query_def query_jee_def on_exception_def new_QueryResponse_def
           split: option.splits sum.splits if_splits prod.splits elim!: and_then.elims)

theorem thinking_always_empty_witness:
  "(\<exists>a. snd (api_query
               (surroundings (found [py ''Doc A'', py ''Doc B'']) (completion (py ''<p>ok</p>'')))
               loaded (ask (py ''What is projectile motion?'')))
          = Json \<lparr>thinking = [], answer = a\<rparr>)
   \<and> (\<exists>a. snd (api_query (surroundings (found []) unauthorized) loaded (ask_n (py ''q'') 3))
          = Json \<lparr>thinking = [], answer = a\<rparr>)"
proof -
  let ?r1 = "api_query (surroundings (found [py ''Doc A'', py ''Doc B'']) (completion (py ''<p>ok</p>'')))
               loaded (ask (py ''What is projectile motion?''))"
  let ?r2 = "api_query (surroundings (found []) unauthorized) loaded (ask_n (py ''q'') 3)"
  have s1: "status (snd ?r1) = Some 200" by (simp add: api_two_docs)
  have s2: "status (snd ?r2) = Some 200" by (simp add: api_no_docs)
  have p: "r = (fst r, snd r)" for r :: "call list \<times> reply" by simp
  from thinking_always_empty [OF p s1]
  have a: "\<exists>a. snd ?r1 = Json \<lparr>thinking = [], answer = a\<rparr>" .
  from thinking_always_empty [OF p s2]
  have b: "\<exists>a. snd ?r2 = Json \<lparr>thinking = [], answer = a\<rparr>" .
  from a b show ?thesis by (rule conjI)
qed

section \<open>Properties of the module initialization\<close>

text \<open>
  C4: when the completion-API key, the vector-database API key or the tenant identifier is
  absent from the environment, the module raises its \<^verbatim>\<open>RuntimeError\<close> before any call to the
  vector database; when the three are present and the collection cannot be opened, the
  module raises after one \<^verbatim>\<open>CloudClient\<close> and one \<^verbatim>\<open>get_collection\<close> call, with no second
  attempt. In both cases the process ends with that exception and no request, however
  many arrive, is handled.
\<close>

theorem startup_fails_fast:
  shows "(environ (py ''PERPLEXITY_API_KEY'') = None \<or> environ (py ''CHROMA_CLOUD_API_KEY'') = None
            \<or> environ (py ''CHROMA_CLOUD_TENANT'') = None \<longrightarrow>
          startup X environ = ([], Inl missing_keys_error)
          \<and> run X environ requests = ([], Inl missing_keys_error))
       \<and> (\<forall>pk ck tn cl e.
            environ (py ''PERPLEXITY_API_KEY'') = Some pk \<and> pk \<noteq> [] \<and>
            environ (py ''CHROMA_CLOUD_API_KEY'') = Some ck \<and> ck \<noteq> [] \<and>
            environ (py ''CHROMA_CLOUD_TENANT'') = Some tn \<and> tn \<noteq> [] \<and>
            ext_client X ck tn CHROMA_DB = Inr cl \<and>
            ext_get_collection X cl CHROMA_COLLECTION = Inl e \<longrightarrow>
            startup X environ =
              ([CloudClient ck tn CHROMA_DB, GetCollection CHROMA_COLLECTION], Inl (collection_error e))
            \<and> run X environ requests =
              ([CloudClient ck tn CHROMA_DB, GetCollection CHROMA_COLLECTION], Inl (collection_error e)))"
proof (intro conjI impI allI)
  assume m: "environ (py ''PERPLEXITY_API_KEY'') = None \<or> environ (py ''CHROMA_CLOUD_API_KEY'') = None
            \<or> environ (py ''CHROMA_CLOUD_TENANT'') = None"
  then show s: "startup X environ = ([], Inl missing_keys_error)"
    by (auto simp: startup_def split: option.splits)
  then show "run X environ requests = ([], Inl missing_keys_error)"
    by (rule run_startup_fails)
next
  fix pk ck tn cl e
  assume h: "environ (py ''PERPLEXITY_API_KEY'') = Some pk \<and> pk \<noteq> [] \<and>
            environ (py ''CHROMA_CLOUD_API_KEY'') = Some ck \<and> ck \<noteq> [] \<and>
            environ (py ''CHROMA_CLOUD_TENANT'') = Some tn \<and> tn \<noteq> [] \<and>
            ext_client X ck tn CHROMA_DB = Inr cl \<and>
            ext_get_collection X cl CHROMA_COLLECTION = Inl e"
  then show s: "startup X environ =
      ([CloudClient ck tn CHROMA_DB, GetCollection CHROMA_COLLECTION], Inl (collection_error e))"
    by (simp add: startup_def)
  then show "run X environ requests =
      ([CloudClient ck tn CHROMA_DB, GetCollection CHROMA_COLLECTION], Inl (collection_error e))"
    by (rule run_startup_fails)
qed

theorem startup_fails_fast_witness:
  "run without_collection environ_without_key [ask (py ''q'')] = ([], Inl missing_keys_error)
   \<and> run without_collection environ_complete [ask (py ''q'')]
       = ([CloudClient (py ''ck-key'') (py ''tenant-1'') CHROMA_DB, GetCollection CHROMA_COLLECTION],
          Inl (collection_error not_found))"
proof -
  have k: "environ_without_key (py ''PERPLEXITY_API_KEY'') = None"
    by (simp add: environ_without_key_def py_def)
  have c: "environ_complete (py ''PERPLEXITY_API_KEY'') = Some (py ''pplx-key'') \<and> py ''pplx-key'' \<noteq> [] \<and>
           environ_complete (py ''CHROMA_CLOUD_API_KEY'') = Some (py ''ck-key'') \<and> py ''ck-key'' \<noteq> [] \<and>
           environ_complete (py ''CHROMA_CLOUD_TENANT'') = Some (py ''tenant-1'') \<and> py ''tenant-1'' \<noteq> [] \<and>
           ext_client without_collection (py ''ck-key'') (py ''tenant-1'') CHROMA_DB = Inr () \<and>
           ext_get_collection without_collection () CHROMA_COLLECTION = Inl not_found"
    by (simp add: environ_complete_def without_collection_def surroundings_def py_def)
  from startup_fails_fast [of environ_without_key without_collection "[ask (py ''q'')]"] k
  have a: "run without_collection environ_without_key [ask (py ''q'')] = ([], Inl missing_keys_error)"
    by blast
  from startup_fails_fast [of environ_complete without_collection "[ask (py ''q'')]"] c
  have b: "run without_collection environ_complete [ask (py ''q'')]
       = ([CloudClient (py ''ck-key'') (py ''tenant-1'') CHROMA_DB, GetCollection CHROMA_COLLECTION],
          Inl (collection_error not_found))"
    by blast
  from a b show ?thesis by blast
qed

section \<open>Properties of the retrieval client\<close>

text \<open>
  C8: when the retrieval service returns zero matching documents for the query (an empty
  list of documents for the one query text, or no \<^verbatim>\<open>"documents"\<close> entry at all),
  \<open>query_chroma_collection\<close> returns the empty string.
\<close>

theorem retrieve_no_documents_empty:
  assumes "collection_query coll [q] n = Inr results"
    and "documents results = DocLists ([] # rest) \<or> documents results = NoKey"
  shows "query_chroma_collection collection_query coll q n = Inr []"
  using assms by (auto simp: query_chroma_collection_def)

theorem retrieve_no_documents_empty_witness:
  "query_chroma_collection (\<lambda>c qs k. Inr \<lparr>documents = DocLists [[]]\<rparr>) () (py ''asdkjhasd'') 3
     = Inr []"
  using retrieve_no_documents_empty
    [of "\<lambda>c qs k. Inr \<lparr>documents = DocLists [[]]\<rparr>" "()" "py ''asdkjhasd''" 3
        "\<lparr>documents = DocLists [[]]\<rparr>" "[]"]
  by simp

text \<open>
  C10: when the retrieval service returns exactly one document, \<open>query_chroma_collection\<close>
  returns that document's text unchanged, with no separator before or after it.
\<close>

theorem retrieve_single_document_identity:
  assumes "collection_query coll [q] n = Inr results"
    and "documents results = DocLists ([doc] # rest)"
  shows "query_chroma_collection collection_query coll q n = Inr doc"
  using assms by (simp add: query_chroma_collection_def)

theorem retrieve_single_document_identity_witness:
  "query_chroma_collection (\<lambda>c qs k. Inr \<lparr>documents = DocLists [[py ''Doc A'']]\<rparr>) ()
     (py ''q'') 3 = Inr (py ''Doc A'')"
  using retrieve_single_document_identity
    [of "\<lambda>c qs k. Inr \<lparr>documents = DocLists [[py ''Doc A'']]\<rparr>" "()" "py ''q''" 3
        "\<lparr>documents = DocLists [[py ''Doc A'']]\<rparr>" "py ''Doc A''" "[]"]
  by simp

end
